theory Spec2Isabelle
  imports Main "HOL-Library.DAList"
begin

section \<open>The connection-test command line of mcp-ssh-manager\<close>

text \<open>
  The script \<^verbatim>\<open>tools/test-connection.py\<close> builds an \<^verbatim>\<open>SSHServerManager\<close>, and
  either lists the configured servers (no server name on the command line) or asks the
  manager to test one connection, leaving through \<^verbatim>\<open>sys.exit\<close> on both paths.
  The manager class lives in \<^verbatim>\<open>server_manager.py\<close>, outside this script: it is a
  parameter of the model.
\<close>

subsection \<open>Exceptions, observable effects, the process state\<close>

text \<open>
  \<^verbatim>\<open>sys.exit(n)\<close> raises \<^verbatim>\<open>SystemExit(n)\<close>; nothing in the script catches it, so it
  ends the process with status \<open>n\<close>. \<^verbatim>\<open>sys.argv[1]\<close> raises \<^verbatim>\<open>IndexError\<close> on a
  short list. An exception of the manager is carried by name.
\<close>

datatype py_exn = SystemExit int | IndexError | CollaboratorError string

text \<open>The operations of the manager that a run performs, in order.\<close>

datatype call = Construct | ServersKeys | TestConnection string

text \<open>
  What a run can change: the chunks written to standard output (one per \<^verbatim>\<open>print\<close>
  call, with its newline), the record of manager operations, and the state \<open>'w\<close> of
  everything the manager owns (its registry, its connections).
\<close>

record 'w process =
  stdout :: "string list"
  calls :: "call list"
  world :: 'w

type_synonym ('w, 'a) py = "'w process \<Rightarrow> (py_exn + 'a) \<times> 'w process"

definition py_return :: "'a \<Rightarrow> ('w, 'a) py" where
  "py_return x s = (Inr x, s)"

definition py_raise :: "py_exn \<Rightarrow> ('w, 'a) py" where
  "py_raise e s = (Inl e, s)"

text \<open>Statement sequencing: an exception of the first statement skips the rest.\<close>

definition py_bind :: "('w, 'a) py \<Rightarrow> ('a \<Rightarrow> ('w, 'b) py) \<Rightarrow> ('w, 'b) py" where
  "py_bind m f s = (case m s of (Inl e, s') \<Rightarrow> (Inl e, s') | (Inr x, s') \<Rightarrow> f x s')"

definition print :: "string \<Rightarrow> ('w, unit) py" where
  "print text s = (Inr (), s\<lparr>stdout := stdout s @ [text @ [CHR 0x0A]]\<rparr>)"

definition sys_exit :: "int \<Rightarrow> ('w, 'a) py" where
  "sys_exit n = py_raise (SystemExit n)"

definition getitem :: "'a list \<Rightarrow> nat \<Rightarrow> ('w, 'a) py" where
  "getitem xs i = (if i < length xs then py_return (xs ! i) else py_raise IndexError)"

subsection \<open>The manager\<close>

text \<open>
  The three things the script asks of \<^verbatim>\<open>server_manager.SSHServerManager\<close>: the
  constructor, which returns a manager \<open>'h\<close> or raises; the attribute \<^verbatim>\<open>servers\<close>, a
  dict from server name to configuration \<open>'c\<close> (keys unique, enumerated in the dict's
  own order); and \<^verbatim>\<open>test_connection(name)\<close>, which returns a truth value or raises.
  The constructor and the test may change the manager's state.
\<close>

record ('w, 'h, 'c) collaborator =
  SSHServerManager :: "'w \<Rightarrow> (string + 'h) \<times> 'w"
  servers :: "'h \<Rightarrow> 'w \<Rightarrow> (string, 'c) alist"
  test_connection :: "'h \<Rightarrow> string \<Rightarrow> 'w \<Rightarrow> (string + bool) \<times> 'w"

definition lift_result :: "string + 'a \<Rightarrow> py_exn + 'a" where
  "lift_result r = (case r of Inl e \<Rightarrow> Inl (CollaboratorError e) | Inr x \<Rightarrow> Inr x)"

text \<open>\<^verbatim>\<open>SSHServerManager()\<close>\<close>

definition new_SSHServerManager :: "('w, 'h, 'c) collaborator \<Rightarrow> ('w, 'h) py" where
  "new_SSHServerManager col s =
     (case SSHServerManager col (world s) of
        (r, w) \<Rightarrow> (lift_result r, s\<lparr>calls := calls s @ [Construct], world := w\<rparr>))"

text \<open>\<^verbatim>\<open>manager.servers.keys()\<close>\<close>

definition servers_keys :: "('w, 'h, 'c) collaborator \<Rightarrow> 'h \<Rightarrow> ('w, string list) py" where
  "servers_keys col manager s =
     (Inr (map fst (DAList.impl_of (servers col manager (world s)))),
      s\<lparr>calls := calls s @ [ServersKeys]\<rparr>)"

text \<open>\<^verbatim>\<open>manager.test_connection(server_name)\<close>\<close>

definition manager_test_connection ::
  "('w, 'h, 'c) collaborator \<Rightarrow> 'h \<Rightarrow> string \<Rightarrow> ('w, bool) py" where
  "manager_test_connection col manager server_name s =
     (case test_connection col manager server_name (world s) of
        (r, w) \<Rightarrow>
          (lift_result r, s\<lparr>calls := calls s @ [TestConnection server_name], world := w\<rparr>))"

subsection \<open>The script\<close>

text \<open>
  \<^verbatim>\<open>for server in manager.servers.keys(): print(f"  - {server}")\<close>, over the keys
  in the order the dict yields them.
\<close>

fun print_servers :: "string list \<Rightarrow> ('w, unit) py" where
  "print_servers [] = py_return ()"
| "print_servers (server # rest) =
     py_bind (print (''  - '' @ server)) (\<lambda>_. print_servers rest)"

definition usage_text :: string where
  "usage_text = ''Usage: python test-connection.py <server_name>''"

definition available_text :: string where
  "available_text = CHR 0x0A # ''Available servers:''"

text \<open>
  \<^verbatim>\<open>main()\<close>, statement by statement; \<open>argv\<close> is \<^verbatim>\<open>sys.argv\<close>, the script's name
  first. The result \<open>Inr ()\<close> would be a normal return to the caller.
\<close>

definition main :: "('w, 'h, 'c) collaborator \<Rightarrow> string list \<Rightarrow> ('w, unit) py" where
  "main col argv =
     py_bind (new_SSHServerManager col) (\<lambda>manager.
     py_bind (if length argv < 2 then
                py_bind (print usage_text) (\<lambda>_.
                py_bind (print available_text) (\<lambda>_.
                py_bind (servers_keys col manager) (\<lambda>keys.
                py_bind (print_servers keys) (\<lambda>_.
                sys_exit 1))))
              else py_return ()) (\<lambda>_.
     py_bind (getitem argv 1) (\<lambda>server_name.
     py_bind (manager_test_connection col manager server_name) (\<lambda>success.
     sys_exit (if success then 0 else 1)))))"

text \<open>A process that has written nothing and called nothing yet.\<close>

definition start :: "'w \<Rightarrow> 'w process" where
  "start w = \<lparr>stdout = [], calls = [], world = w\<rparr>"

text \<open>The line that lists one server, as written to standard output.\<close>

definition entry :: "string \<Rightarrow> string" where
  "entry server = ''  - '' @ server @ [CHR 0x0A]"

fun is_TestConnection :: "call \<Rightarrow> bool" where
  "is_TestConnection (TestConnection _) = True"
| "is_TestConnection _ = False"

subsection \<open>A scenario\<close>

text \<open>
  The registry holds \<^verbatim>\<open>staging\<close> and \<^verbatim>\<open>prod\<close>, entered in that order; only
  \<^verbatim>\<open>prod\<close> can be reached. The manager's state counts the connection attempts made.
\<close>

definition scenario_registry :: "(string, unit) alist" where
  "scenario_registry = DAList.update ''prod'' () (DAList.update ''staging'' () DAList.empty)"

definition scenario :: "(nat, unit, unit) collaborator" where
  "scenario =
     \<lparr>SSHServerManager = (\<lambda>w. (Inr (), w)),
      servers = (\<lambda>_ _. scenario_registry),
      test_connection = (\<lambda>_ name w. (Inr (name = ''prod''), Suc w))\<rparr>"

text \<open>
  The same registry behind a manager that reports every connection as working, also
  for a name the registry does not hold.
\<close>

definition scenario_lenient :: "(nat, unit, unit) collaborator" where
  "scenario_lenient =
     \<lparr>SSHServerManager = (\<lambda>w. (Inr (), w)),
      servers = (\<lambda>_ _. scenario_registry),
      test_connection = (\<lambda>_ name w. (Inr True, Suc w))\<rparr>"

section \<open>How a run unfolds\<close>

text \<open>The listing loop writes one entry per key, in the order of the keys.\<close>

lemma print_servers_run:
  "print_servers keys s = (Inr (), s\<lparr>stdout := stdout s @ map entry keys\<rparr>)"
  by (induction keys arbitrary: s) (simp_all add: py_return_def py_bind_def print_def entry_def)

text \<open>The three ways through \<open>main\<close>: the constructor raises, no server name, a server name.\<close>

lemma main_construct_raises:
  assumes "SSHServerManager col (world s) = (Inl e, w1)"
  shows "main col argv s =
    (Inl (CollaboratorError e), s\<lparr>calls := calls s @ [Construct], world := w1\<rparr>)"
  using assms by (simp add: main_def py_bind_def new_SSHServerManager_def lift_result_def)

lemma main_usage:
  assumes "length argv < 2" and "SSHServerManager col (world s) = (Inr manager, w1)"
  shows "main col argv s =
    (Inl (SystemExit 1),
     s\<lparr>stdout := stdout s @ [usage_text @ [CHR 0x0A], available_text @ [CHR 0x0A]]
                    @ map entry (map fst (DAList.impl_of (servers col manager w1))),
       calls := calls s @ [Construct, ServersKeys], world := w1\<rparr>)"
  using assms by (simp add: main_def py_bind_def new_SSHServerManager_def lift_result_def
      print_def servers_keys_def print_servers_run sys_exit_def py_raise_def)

lemma main_test:
  assumes "2 \<le> length argv" and "SSHServerManager col (world s) = (Inr manager, w1)"
    and "test_connection col manager (argv ! 1) w1 = (r, w2)"
  shows "main col argv s =
    ((case r of Inl e \<Rightarrow> Inl (CollaboratorError e)
              | Inr success \<Rightarrow> Inl (SystemExit (if success then 0 else 1))),
     s\<lparr>calls := calls s @ [Construct, TestConnection (argv ! 1)], world := w2\<rparr>)"
  using assms by (simp add: main_def py_bind_def new_SSHServerManager_def lift_result_def
      getitem_def py_return_def manager_test_connection_def sys_exit_def py_raise_def
      split: sum.splits)

lemma count_list_distinct:
  "distinct xs \<Longrightarrow> x \<in> set xs \<Longrightarrow> count_list xs x = 1"
  by (induction xs) (auto simp: count_list_0_iff)

lemma entry_inj: "inj entry"
  by (rule injI) (simp add: entry_def)

lemma entry_not_heading:
  "entry name \<noteq> usage_text @ [CHR 0x0A]" "entry name \<noteq> available_text @ [CHR 0x0A]"
  by (simp_all add: entry_def usage_text_def available_text_def)

lemma count_list_listing:
  assumes "distinct keys" and "name \<in> set keys"
  shows "count_list ([usage_text @ [CHR 0x0A], available_text @ [CHR 0x0A]] @ map entry keys)
           (entry name) = 1"
proof -
  have "count_list (map entry keys) (entry name) = count_list keys name"
    by (rule count_list_map_conv [OF entry_inj])
  also have "\<dots> = 1"
    using assms by (rule count_list_distinct)
  finally show ?thesis
    using entry_not_heading [of name] by simp
qed

text \<open>The scenario, evaluated.\<close>

lemma scenario_keys:
  "map fst (DAList.impl_of scenario_registry) = [''staging'', ''prod'']"
  by (simp add: scenario_registry_def DAList.update.rep_eq DAList.empty.rep_eq)

lemma scenario_construct: "SSHServerManager scenario w = (Inr (), w)"
  by (simp add: scenario_def)

lemma scenario_servers: "servers scenario manager w = scenario_registry"
  by (simp add: scenario_def)

lemma scenario_test: "test_connection scenario manager name w = (Inr (name = ''prod''), Suc w)"
  by (simp add: scenario_def)

lemma scenario_lenient_construct: "SSHServerManager scenario_lenient w = (Inr (), w)"
  by (simp add: scenario_lenient_def)

lemma scenario_lenient_servers: "servers scenario_lenient manager w = scenario_registry"
  by (simp add: scenario_lenient_def)

lemma scenario_lenient_test:
  "test_connection scenario_lenient manager name w = (Inr True, Suc w)"
  by (simp add: scenario_lenient_def)

section \<open>Properties of the command line\<close>

text \<open>
  C1. With a server name on the command line (\<open>argv\<close> has the script's name and at
  least one argument) and a test that returns, the process leaves with status 0 when
  \<open>test_connection\<close> of the first argument returned true and with status 1 when it
  returned false; there is no other status on this path.
\<close>

theorem main_exit_status_of_test:
  assumes "2 \<le> length argv"
    and "SSHServerManager col (world s) = (Inr manager, w1)"
    and "test_connection col manager (argv ! 1) w1 = (Inr success, w2)"
  shows "fst (main col argv s) = Inl (SystemExit (if success then 0 else 1))"
  using main_test [OF assms] by simp

theorem main_exit_status_of_test_witness:
  "fst (main scenario [''test-connection.py'', ''prod''] (start 0)) = Inl (SystemExit 0)
   \<and> fst (main scenario [''test-connection.py'', ''staging''] (start 0)) = Inl (SystemExit 1)"
proof -
  have c: "SSHServerManager scenario (world (start 0)) = (Inr (), 0)"
    by (simp add: scenario_construct start_def)
  have t1: "test_connection scenario () ([''test-connection.py'', ''prod''] ! 1) 0
              = (Inr True, 1)"
    by (simp add: scenario_test)
  have t2: "test_connection scenario () ([''test-connection.py'', ''staging''] ! 1) 0
              = (Inr False, 1)"
    by (simp add: scenario_test)
  show ?thesis
    using main_exit_status_of_test [OF _ c t1] main_exit_status_of_test [OF _ c t2] by simp
qed

text \<open>
  C2. With no server name on the command line (\<open>argv\<close> is at most the script's name)
  and a manager that was constructed, the process leaves with status 1, no
  \<open>test_connection\<close> is among the manager operations performed, and the output lists
  every server name of the registry exactly once: exactly one of the chunks written is
  the entry of that name.
\<close>

theorem main_without_server_name:
  assumes "length argv < 2" and "SSHServerManager col w0 = (Inr manager, w1)"
  shows "fst (main col argv (start w0)) = Inl (SystemExit 1)
    \<and> filter is_TestConnection (calls (snd (main col argv (start w0)))) = []
    \<and> (\<forall>name \<in> set (map fst (DAList.impl_of (servers col manager w1))).
          count_list (stdout (snd (main col argv (start w0)))) (entry name) = 1)"
proof -
  define keys where "keys = map fst (DAList.impl_of (servers col manager w1))"
  have d: "distinct keys"
    by (simp add: keys_def)
  from assms have run: "main col argv (start w0) =
    (Inl (SystemExit 1),
     \<lparr>stdout = [usage_text @ [CHR 0x0A], available_text @ [CHR 0x0A]] @ map entry keys,
      calls = [Construct, ServersKeys], world = w1\<rparr>)"
    by (simp add: main_usage start_def keys_def)
  have "\<forall>name \<in> set keys.
      count_list ([usage_text @ [CHR 0x0A], available_text @ [CHR 0x0A]] @ map entry keys)
        (entry name) = 1"
    using count_list_listing [OF d] by blast
  with run show ?thesis
    unfolding keys_def [symmetric] by simp
qed

theorem main_without_server_name_witness:
  "fst (main scenario [''test-connection.py''] (start 0)) = Inl (SystemExit 1)
   \<and> filter is_TestConnection (calls (snd (main scenario [''test-connection.py''] (start 0)))) = []
   \<and> count_list (stdout (snd (main scenario [''test-connection.py''] (start 0)))) (entry ''prod'') = 1
   \<and> count_list (stdout (snd (main scenario [''test-connection.py''] (start 0)))) (entry ''staging'') = 1"
proof -
  have l: "length [''test-connection.py''] < 2" by simp
  show ?thesis
    using main_without_server_name [OF l scenario_construct, of 0]
    by (simp add: scenario_servers scenario_keys)
qed

text \<open>
  C3. With a server name on the command line and a manager that was constructed, the
  run is the one call \<open>test_connection\<close> of the manager on exactly the first
  argument, in the state the constructor left: the call record is the construction and
  that call, nothing is printed, the manager's state after the run is the state that
  call left, and the run ends with the exception that call raised or with the exit
  status of the truth value it returned. The registry plays no part: it is not read,
  and the answer of \<open>test_connection\<close> is taken as it is, whether or not the
  registry holds the name. A test that returns false gives status 1, whatever the
  reason it failed for.
\<close>

theorem main_passes_first_argument:
  assumes "2 \<le> length argv" and "SSHServerManager col w0 = (Inr manager, w1)"
  shows "main col argv (start w0) =
      ((case fst (test_connection col manager (argv ! 1) w1) of
          Inl e \<Rightarrow> Inl (CollaboratorError e)
        | Inr success \<Rightarrow> Inl (SystemExit (if success then 0 else 1))),
       \<lparr>stdout = [],
        calls = [Construct, TestConnection (argv ! 1)],
        world = snd (test_connection col manager (argv ! 1) w1)\<rparr>)
    \<and> (fst (test_connection col manager (argv ! 1) w1) = Inr False
          \<longrightarrow> fst (main col argv (start w0)) = Inl (SystemExit 1))"
proof -
  obtain r w2 where t: "test_connection col manager (argv ! 1) w1 = (r, w2)"
    by (cases "test_connection col manager (argv ! 1) w1")
  from assms have c: "SSHServerManager col (world (start w0)) = (Inr manager, w1)"
    by (simp add: start_def)
  show ?thesis
    using main_test [OF assms(1) c t] t by (simp add: start_def)
qed

text \<open>
  In the scenario an unknown name and an unreachable server both end with status 1,
  each after one connection attempt; behind the manager that reports every connection
  as working, the unknown name ends with status 0.
\<close>

theorem main_passes_first_argument_witness:
  "main scenario [''test-connection.py'', ''unknown''] (start 0) =
     (Inl (SystemExit 1),
      \<lparr>stdout = [], calls = [Construct, TestConnection ''unknown''], world = 1\<rparr>)
   \<and> main scenario [''test-connection.py'', ''staging''] (start 0) =
     (Inl (SystemExit 1),
      \<lparr>stdout = [], calls = [Construct, TestConnection ''staging''], world = 1\<rparr>)
   \<and> main scenario_lenient [''test-connection.py'', ''unknown''] (start 0) =
     (Inl (SystemExit 0),
      \<lparr>stdout = [], calls = [Construct, TestConnection ''unknown''], world = 1\<rparr>)"
proof -
  have l: "2 \<le> length [''test-connection.py'', name]" for name :: string
    by simp
  show ?thesis
    using main_passes_first_argument [OF l scenario_construct, of "''unknown''" 0]
      main_passes_first_argument [OF l scenario_construct, of "''staging''" 0]
      main_passes_first_argument [OF l scenario_lenient_construct, of "''unknown''" 0]
    by (simp add: scenario_test scenario_lenient_test)
qed

text \<open>
  C4. When the constructor and the test return rather than raise, every run of
  \<open>main\<close> ends in \<open>SystemExit\<close> with status 0 or 1; in particular \<open>main\<close> does
  not return to its caller.
\<close>

theorem main_always_exits:
  assumes "SSHServerManager col (world s) = (Inr manager, w1)"
    and "\<And>name. \<not> isl (fst (test_connection col manager name w1))"
  shows "(fst (main col argv s) = Inl (SystemExit 0) \<or> fst (main col argv s) = Inl (SystemExit 1))
    \<and> fst (main col argv s) \<noteq> Inr ()"
proof (cases "length argv < 2")
  case True
  then show ?thesis
    using main_usage [OF True assms(1)] by simp
next
  case False
  then have l: "2 \<le> length argv" by simp
  obtain r w2 where t: "test_connection col manager (argv ! 1) w1 = (r, w2)"
    by (cases "test_connection col manager (argv ! 1) w1")
  with assms(2) [of "argv ! 1"] obtain success where "r = Inr success"
    by (cases r) simp_all
  with main_test [OF l assms(1) t] show ?thesis by simp
qed

theorem main_always_exits_witness:
  "(fst (main scenario [''test-connection.py''] (start 0)) = Inl (SystemExit 0)
      \<or> fst (main scenario [''test-connection.py''] (start 0)) = Inl (SystemExit 1))
   \<and> fst (main scenario [''test-connection.py''] (start 0)) \<noteq> Inr ()
   \<and> (fst (main scenario [''test-connection.py'', ''prod''] (start 0)) = Inl (SystemExit 0)
      \<or> fst (main scenario [''test-connection.py'', ''prod''] (start 0)) = Inl (SystemExit 1))
   \<and> fst (main scenario [''test-connection.py'', ''prod''] (start 0)) \<noteq> Inr ()"
proof -
  have c: "SSHServerManager scenario (world (start 0)) = (Inr (), 0)"
    by (simp add: scenario_construct start_def)
  have t: "\<not> isl (fst (test_connection scenario () name 0))" for name
    by (simp add: scenario_test)
  show ?thesis
    using main_always_exits [OF c t, of "[''test-connection.py'']"]
      main_always_exits [OF c t, of "[''test-connection.py'', ''prod'']"]
    by blast
qed

text \<open>
  C5. With no server name on the command line and a manager that was constructed,
  standard output is the usage line, then an empty line and the line
  \<^verbatim>\<open>Available servers:\<close>, then one entry per server name of the registry: two
  spaces, a dash, a space, the name and a newline. The heading between the usage line
  and the entries is part of the output.
\<close>

theorem main_usage_output:
  assumes "length argv < 2" and "SSHServerManager col w0 = (Inr manager, w1)"
  shows "stdout (snd (main col argv (start w0))) =
    (usage_text @ [CHR 0x0A]) # (available_text @ [CHR 0x0A])
      # map entry (map fst (DAList.impl_of (servers col manager w1)))"
  using assms by (simp add: main_usage start_def)

theorem main_usage_output_witness:
  "concat (stdout (snd (main scenario [''test-connection.py''] (start 0)))) =
     ''Usage: python test-connection.py <server_name>'' @ [CHR 0x0A]
     @ [CHR 0x0A] @ ''Available servers:'' @ [CHR 0x0A]
     @ ''  - staging'' @ [CHR 0x0A]
     @ ''  - prod'' @ [CHR 0x0A]"
proof -
  have l: "length [''test-connection.py''] < 2" by simp
  show ?thesis
    using main_usage_output [OF l scenario_construct, of 0]
    by (simp add: scenario_servers scenario_keys usage_text_def available_text_def entry_def)
qed

text \<open>
  The output is not the usage line followed at once by the entries: in the scenario the
  text written differs from that.
\<close>

theorem main_usage_output_counterexample:
  "concat (stdout (snd (main scenario [''test-connection.py''] (start 0)))) \<noteq>
     ''Usage: python test-connection.py <server_name>'' @ [CHR 0x0A]
     @ ''  - staging'' @ [CHR 0x0A]
     @ ''  - prod'' @ [CHR 0x0A]"
proof -
  have c: "SSHServerManager scenario (world (start 0)) = (Inr (), 0)"
    by (simp add: scenario_construct start_def)
  have l: "length [''test-connection.py''] < 2" by simp
  show ?thesis
    using main_usage [OF l c]
    by (simp add: start_def scenario_servers scenario_keys usage_text_def available_text_def
        entry_def)
qed

text \<open>
  C6. With no server name on the command line and a manager that was constructed, the
  entries written after the two heading chunks are those of the registry's keys in the
  order in which the registry yields them: nothing is sorted or moved.
\<close>

theorem main_lists_in_registry_order:
  assumes "length argv < 2" and "SSHServerManager col w0 = (Inr manager, w1)"
  shows "drop 2 (stdout (snd (main col argv (start w0)))) =
    map entry (map fst (DAList.impl_of (servers col manager w1)))"
  using assms by (simp add: main_usage start_def)

theorem main_lists_in_registry_order_witness:
  "drop 2 (stdout (snd (main scenario [''test-connection.py''] (start 0)))) =
     [entry ''staging'', entry ''prod'']"
proof -
  have l: "length [''test-connection.py''] < 2" by simp
  show ?thesis
    using main_lists_in_registry_order [OF l scenario_construct, of 0]
    by (simp add: scenario_servers scenario_keys)
qed

text \<open>
  C7. Two runs with the same argument list, whose managers were both constructed, hold
  the same registry and answer every \<open>test_connection\<close> alike, end in the same way:
  the same exit status, or the same exception of the manager.
\<close>

theorem main_exit_status_deterministic:
  assumes "SSHServerManager col (world s) = (Inr manager, w1)"
    and "SSHServerManager col' (world s') = (Inr manager', w1')"
    and "servers col manager w1 = servers col' manager' w1'"
    and "\<And>name. fst (test_connection col manager name w1)
           = fst (test_connection col' manager' name w1')"
  shows "fst (main col argv s) = fst (main col' argv s')"
proof (cases "length argv < 2")
  case True
  then show ?thesis
    using main_usage [OF True assms(1)] main_usage [OF True assms(2)] by simp
next
  case False
  then have l: "2 \<le> length argv" by simp
  obtain r w2 where t: "test_connection col manager (argv ! 1) w1 = (r, w2)"
    by (cases "test_connection col manager (argv ! 1) w1")
  obtain r' w2' where t': "test_connection col' manager' (argv ! 1) w1' = (r', w2')"
    by (cases "test_connection col' manager' (argv ! 1) w1'")
  from assms(4) [of "argv ! 1"] t t' have "r = r'" by simp
  then show ?thesis
    using main_test [OF l assms(1) t] main_test [OF l assms(2) t'] by simp
qed

theorem main_exit_status_deterministic_witness:
  "fst (main scenario [''test-connection.py'', ''prod''] (start 0))
     = fst (main scenario [''test-connection.py'', ''prod''] (start 7))
   \<and> fst (main scenario [''test-connection.py''] (start 0))
     = fst (main scenario [''test-connection.py''] (start 7))"
proof -
  have c: "SSHServerManager scenario (world (start w)) = (Inr (), w)" for w
    by (simp add: scenario_construct start_def)
  have r: "servers scenario () 0 = servers scenario () 7"
    by (simp add: scenario_servers)
  have t: "fst (test_connection scenario () name 0) = fst (test_connection scenario () name 7)"
    for name
    by (simp add: scenario_test)
  show ?thesis
    using main_exit_status_deterministic [OF c c r t, of "[''test-connection.py'', ''prod'']"]
      main_exit_status_deterministic [OF c c r t, of "[''test-connection.py'']"]
    by simp
qed

text \<open>
  C8. \<open>main\<close> itself leaves the manager's state, and with it the registry, as the
  manager's own operations left it: after a run with no server name it is the state
  the constructor produced, after a run with a server name it is the state the one
  \<open>test_connection\<close> produced, and when the constructor raises it is the state the
  constructor left.
\<close>

theorem main_leaves_registry:
  assumes "SSHServerManager col (world s) = (r, w1)"
  shows "world (snd (main col argv s)) =
    (case r of
       Inl e \<Rightarrow> w1
     | Inr manager \<Rightarrow>
         if length argv < 2 then w1 else snd (test_connection col manager (argv ! 1) w1))"
proof (cases r)
  case (Inl e)
  with assms show ?thesis
    by (simp add: main_construct_raises)
next
  case (Inr manager)
  with assms have c: "SSHServerManager col (world s) = (Inr manager, w1)" by simp
  show ?thesis
  proof (cases "length argv < 2")
    case True
    with Inr main_usage [OF True c] show ?thesis by simp
  next
    case False
    then have l: "2 \<le> length argv" by simp
    obtain r' w2 where t: "test_connection col manager (argv ! 1) w1 = (r', w2)"
      by (cases "test_connection col manager (argv ! 1) w1")
    with Inr False main_test [OF l c t] show ?thesis by simp
  qed
qed

theorem main_leaves_registry_witness:
  "world (snd (main scenario [''test-connection.py''] (start 0))) = 0
   \<and> servers scenario () (world (snd (main scenario [''test-connection.py''] (start 0))))
       = servers scenario () 0
   \<and> world (snd (main scenario [''test-connection.py'', ''prod''] (start 0))) = 1"
proof -
  have c: "SSHServerManager scenario (world (start 0)) = (Inr (), 0)"
    by (simp add: scenario_construct start_def)
  show ?thesis
    using main_leaves_registry [OF c, of "[''test-connection.py'']"]
      main_leaves_registry [OF c, of "[''test-connection.py'', ''prod'']"]
    by (simp add: scenario_test)
qed

text \<open>
  C9. Arguments after the first are ignored: a run whose command line carries further
  arguments after the server name is, in exit status, output, manager operations and
  manager state, the run with the server name alone. No error is raised for them.
\<close>

theorem main_ignores_extra_arguments:
  "main col (script # server_name # extra) s = main col [script, server_name] s"
  by (simp add: main_def getitem_def)

text \<open>
  C10. In every run \<open>test_connection\<close> is called at most once, the registry's keys
  are enumerated only when the command line has no server name, and no run does both.
\<close>

theorem main_collaborator_calls:
  "length (filter is_TestConnection (calls (snd (main col argv (start w0))))) \<le> 1
   \<and> (ServersKeys \<in> set (calls (snd (main col argv (start w0)))) \<longrightarrow> length argv < 2)
   \<and> (ServersKeys \<notin> set (calls (snd (main col argv (start w0))))
        \<or> filter is_TestConnection (calls (snd (main col argv (start w0)))) = [])"
proof -
  obtain r w1 where c: "SSHServerManager col (world (start w0)) = (r, w1)"
    by (cases "SSHServerManager col (world (start w0))")
  show ?thesis
  proof (cases r)
    case (Inl e)
    with c main_construct_raises [of col "start w0" e w1 argv] show ?thesis
      by (simp add: start_def)
  next
    case (Inr manager)
    with c have c': "SSHServerManager col (world (start w0)) = (Inr manager, w1)" by simp
    show ?thesis
    proof (cases "length argv < 2")
      case True
      with main_usage [OF True c'] show ?thesis
        by (simp add: start_def)
    next
      case False
      then have l: "2 \<le> length argv" by simp
      obtain r' w2 where t: "test_connection col manager (argv ! 1) w1 = (r', w2)"
        by (cases "test_connection col manager (argv ! 1) w1")
      from main_test [OF l c' t] show ?thesis
        by (simp add: start_def)
    qed
  qed
qed

theorem main_collaborator_calls_witness:
  "length (filter is_TestConnection
      (calls (snd (main scenario [''test-connection.py'', ''prod''] (start 0))))) \<le> 1
   \<and> ServersKeys \<notin> set (calls (snd (main scenario [''test-connection.py'', ''prod''] (start 0))))
   \<and> ServersKeys \<in> set (calls (snd (main scenario [''test-connection.py''] (start 0))))
   \<and> filter is_TestConnection
        (calls (snd (main scenario [''test-connection.py''] (start 0)))) = []"
proof -
  have c: "SSHServerManager scenario (world (start 0)) = (Inr (), 0)"
    by (simp add: scenario_construct start_def)
  have l: "length [''test-connection.py''] < 2" by simp
  have k: "ServersKeys \<in> set (calls (snd (main scenario [''test-connection.py''] (start 0))))"
    using main_usage [OF l c] by (simp add: start_def)
  show ?thesis
    using k main_collaborator_calls [of scenario "[''test-connection.py'', ''prod'']" 0]
      main_collaborator_calls [of scenario "[''test-connection.py'']" 0]
    by auto
qed

end
